theory Spec2Isabelle
  imports
    Complex_Main
    "HOL-Library.Char_ord"
    "HOL-Library.List_Lexorder"
    "HOL-Library.Product_Lexorder"
    "HOL-Library.Sublist"
begin

section \<open>The SASE dashboard: scripts/update.py\<close>

text \<open>
  A shallow embedding of \<^verbatim>\<open>processar_dados\<close> (the pandas aggregation, lines 59-169 of
  scripts/update.py) and of the JavaScript that the generated page runs on the embedded
  data (\<^verbatim>\<open>aplicarFiltros\<close>, \<^verbatim>\<open>atualizarKPIs\<close>, \<^verbatim>\<open>atualizarGraficos\<close>,
  \<^verbatim>\<open>atualizarCards\<close>, lines 615-783).

  Conventions of the embedding:
  \<^item> a cell that pandas holds as NaN/NaT/None is \<open>None\<close>, any other cell is \<open>Some v\<close>;
  \<^item> text is \<open>string\<close>; group keys are compared and ordered as Python compares \<open>str\<close>
    (lexicographically by character code);
  \<^item> a finite floating-point number is an exact rational (\<open>rat\<close>): binary rounding error
    is not modelled. The results of a floating-point division are \<open>fval\<close>, which adds
    NaN and the two infinities, since pandas divides by zero without raising.
\<close>

subsection \<open>Strings\<close>

text \<open>\<^verbatim>\<open>str.upper()\<close>, on ASCII letters; every other character is left as it is.\<close>

definition upper_char :: "char \<Rightarrow> char" where
  "upper_char c =
     (if CHR ''a'' \<le> c \<and> c \<le> CHR ''z'' then char_of (of_char c - (32::nat)) else c)"

definition upper :: "string \<Rightarrow> string" where
  "upper s = map upper_char s"

subsection \<open>categorizar_modalidade (lines 82-104)\<close>

text \<open>
  The dict \<^verbatim>\<open>modalidades\<close>; Python iterates a dict in insertion order, so it is the list
  of its items as written.
\<close>

definition modalidades :: "(string \<times> string) list" where
  "modalidades =
     [(''MAMOGRAFIA'', ''Mamografia''),
      (''DENSITOMETRIA'', ''Densitometria''),
      (''ULTRASSONOGRAFIA'', ''Ultrassonografia''),
      (''ULTRASSOM'', ''Ultrassonografia''),
      (''RAIO X'', ''Raio X''),
      (''RAIO-X'', ''Raio X''),
      (''RX'', ''Raio X''),
      (''DOPPLER'', ''Doppler''),
      (''DOPPLER VASCULAR'', ''Doppler''),
      (''ECODOPPLER'', ''Doppler'')]"

text \<open>
  The loop \<^verbatim>\<open>for chave, valor in modalidades.items(): if chave in exame_upper: return valor\<close>
  followed by \<^verbatim>\<open>return 'Outros'\<close>. Python's \<^verbatim>\<open>in\<close> on strings is the contiguous
  substring test, \<^const>\<open>sublist\<close>.
\<close>

fun percorrer :: "(string \<times> string) list \<Rightarrow> string \<Rightarrow> string" where
  "percorrer [] exame_upper = ''Outros''"
| "percorrer ((chave, valor) # resto) exame_upper =
     (if sublist chave exame_upper then valor else percorrer resto exame_upper)"

definition categorizar_modalidade :: "string option \<Rightarrow> string" where
  "categorizar_modalidade exame =
     (case exame of
        None \<Rightarrow> ''Outros''
      | Some e \<Rightarrow> percorrer modalidades (upper e))"

subsection \<open>The classifier as the specification words it\<close>

datatype Modality =
  Mammography | Bone_Densitometry | Ultrasonography | X_Ray | Doppler | Other

text \<open>The name under which the program writes each category.\<close>

fun modality_name :: "Modality \<Rightarrow> string" where
  "modality_name Mammography = ''Mamografia''"
| "modality_name Bone_Densitometry = ''Densitometria''"
| "modality_name Ultrasonography = ''Ultrassonografia''"
| "modality_name X_Ray = ''Raio X''"
| "modality_name Doppler = ''Doppler''"
| "modality_name Other = ''Outros''"

definition rule_table :: "(string \<times> Modality) list" where
  "rule_table =
     [(''MAMOGRAFIA'', Mammography),
      (''DENSITOMETRIA'', Bone_Densitometry),
      (''ULTRASSONOGRAFIA'', Ultrasonography),
      (''ULTRASSOM'', Ultrasonography),
      (''RAIO X'', X_Ray),
      (''RAIO-X'', X_Ray),
      (''RX'', X_Ray),
      (''DOPPLER'', Doppler),
      (''DOPPLER VASCULAR'', Doppler),
      (''ECODOPPLER'', Doppler)]"

text \<open>A blank description: nothing but white space (the empty string included).\<close>

definition blank :: "string \<Rightarrow> bool" where
  "blank s = list_all (\<lambda>c. c = CHR '' '' \<or> c = CHR 0x09 \<or> c = CHR 0x0A \<or> c = CHR 0x0D) s"

text \<open>
  Null or blank gives \<open>Other\<close>; otherwise the category of the first rule of the table
  whose substring occurs in the uppercased description; \<open>Other\<close> when no rule matches.
\<close>

definition classify :: "string option \<Rightarrow> Modality" where
  "classify description =
     (case description of
        None \<Rightarrow> Other
      | Some d \<Rightarrow>
          if blank d then Other
          else (case find (\<lambda>(substring, m). sublist substring (upper d)) rule_table of
                  None \<Rightarrow> Other
                | Some (substring, m) \<Rightarrow> m))"

section \<open>processar_dados: the data frame (lines 62-79, 106-107)\<close>

text \<open>
  A row of the sheet as \<^verbatim>\<open>pd.read_excel\<close> delivers it, under the nine column names that
  line 65 assigns (a sheet with another number of columns is outside the input contract).
  The three text columns are read as they are; the cells of the date column and of the
  five numeric columns are of an arbitrary type \<open>'c\<close>, since lines 72-77 only pass them
  to the coercing parsers.
\<close>

record 'c linha =
  col_Nome_Paciente :: "string option"
  col_Data_Realizacao :: 'c
  col_Convenio :: "string option"
  col_Exame_Realizado :: "string option"
  col_Valor_Exame :: 'c
  col_Taxa_Cartao :: 'c
  col_Percentual_SASE :: 'c
  col_Percentual_Medico :: 'c
  col_RDF :: 'c

text \<open>A timestamp is (year, month, day); the time of day plays no part.\<close>

type_synonym timestamp = "int \<times> int \<times> int"

record registro =
  Nome_Paciente :: "string option"
  Data_Realizacao :: "timestamp option"
  Convenio :: "string option"
  Exame_Realizado :: "string option"
  Valor_Exame :: "rat option"
  Taxa_Cartao :: "rat option"
  Percentual_SASE :: "rat option"
  Percentual_Medico :: "rat option"
  RDF :: "rat option"

text \<open>
  Lines 69-77. First the rows whose patient cell is the header label are removed
  (\<^verbatim>\<open>df[df['Nome_Paciente'] != 'Nome do Paciente']\<close>; a NaN cell differs from the label, so
  the row stays). Then each of the six columns is coerced: \<open>to_datetime\<close> and \<open>to_numeric\<close>
  stand for \<^verbatim>\<open>pd.to_datetime(..., errors='coerce')\<close> and \<^verbatim>\<open>pd.to_numeric(..., errors='coerce')\<close>,
  which return NaT/NaN (\<open>None\<close>) for a cell they cannot parse instead of raising.
\<close>

definition coagir :: "('c \<Rightarrow> timestamp option) \<Rightarrow> ('c \<Rightarrow> rat option) \<Rightarrow> 'c linha \<Rightarrow> registro" where
  "coagir to_datetime to_numeric l =
     \<lparr>Nome_Paciente = col_Nome_Paciente l,
      Data_Realizacao = to_datetime (col_Data_Realizacao l),
      Convenio = col_Convenio l,
      Exame_Realizado = col_Exame_Realizado l,
      Valor_Exame = to_numeric (col_Valor_Exame l),
      Taxa_Cartao = to_numeric (col_Taxa_Cartao l),
      Percentual_SASE = to_numeric (col_Percentual_SASE l),
      Percentual_Medico = to_numeric (col_Percentual_Medico l),
      RDF = to_numeric (col_RDF l)\<rparr>"

definition carregar ::
  "('c \<Rightarrow> timestamp option) \<Rightarrow> ('c \<Rightarrow> rat option) \<Rightarrow> 'c linha list \<Rightarrow> registro list" where
  "carregar to_datetime to_numeric planilha =
     map (coagir to_datetime to_numeric)
       (filter (\<lambda>l. col_Nome_Paciente l \<noteq> Some ''Nome do Paciente'') planilha)"

text \<open>The derived column \<^verbatim>\<open>df['Modalidade']\<close> (line 106).\<close>

definition Modalidade :: "registro \<Rightarrow> string" where
  "Modalidade r = categorizar_modalidade (Exame_Realizado r)"

text \<open>
  The derived column \<^verbatim>\<open>df['Ano_Mes'] = df['Data_Realizacao'].dt.to_period('M').astype(str)\<close>
  (line 107). \<open>digitos w n\<close> writes \<open>n\<close> in \<open>w\<close> decimal digits, so a period prints as
  \<^verbatim>\<open>YYYY-MM\<close>. \<^verbatim>\<open>astype(str)\<close> turns every element into a Python \<open>str\<close>, the missing
  period included: NaT becomes the three-letter string \<^verbatim>\<open>'NaT'\<close> (the PeriodArray formats
  its elements with \<^verbatim>\<open>na_rep='NaT'\<close>). The column therefore never holds a missing value.
\<close>

fun digitos :: "nat \<Rightarrow> int \<Rightarrow> string" where
  "digitos 0 n = []"
| "digitos (Suc w) n = digitos w (n div 10) @ [char_of (48 + n mod 10)]"

definition Ano_Mes :: "registro \<Rightarrow> string option" where
  "Ano_Mes r =
     (case Data_Realizacao r of
        None \<Rightarrow> Some ''NaT''
      | Some (ano, mes, dia) \<Rightarrow> Some (digitos 4 ano @ ''-'' @ digitos 2 mes))"

section \<open>processar_dados: the aggregations (lines 109-163)\<close>

subsection \<open>pandas primitives\<close>

text \<open>
  \<^verbatim>\<open>df.groupby(keys)\<close> with the defaults \<^verbatim>\<open>sort=True, dropna=True\<close>: one group per
  distinct key, in ascending key order; a row with a missing value in a key column
  (\<open>chave r = None\<close>) belongs to no group; the rows of a group keep the order of the frame.
\<close>

definition groupby :: "('r \<Rightarrow> 'k::linorder option) \<Rightarrow> 'r list \<Rightarrow> ('k \<times> 'r list) list" where
  "groupby chave df =
     map (\<lambda>k. (k, filter (\<lambda>r. chave r = Some k) df))
       (sort (remdups (List.map_filter chave df)))"

text \<open>The aggregation \<^verbatim>\<open>'count'\<close>: the number of non-missing cells of the column.\<close>

definition agg_count :: "('r \<Rightarrow> 'a option) \<Rightarrow> 'r list \<Rightarrow> nat" where
  "agg_count col g = length (filter (\<lambda>r. col r \<noteq> None) g)"

text \<open>The aggregation \<^verbatim>\<open>'sum'\<close>: missing cells are skipped, the empty sum is 0.\<close>

definition agg_sum :: "('r \<Rightarrow> rat option) \<Rightarrow> 'r list \<Rightarrow> rat" where
  "agg_sum col g = (\<Sum>r\<leftarrow>g. case col r of None \<Rightarrow> 0 | Some v \<Rightarrow> v)"

text \<open>\<^verbatim>\<open>notna()\<close>.\<close>

definition notna :: "'a option \<Rightarrow> bool" where
  "notna v = (v \<noteq> None)"

text \<open>
  Floating-point results. Element-wise division of two columns never raises: a zero
  divisor gives NaN (0/0) or an infinity.
\<close>

datatype fval = Fin rat | NaN | PInf | NInf

definition fdiv :: "rat \<Rightarrow> rat \<Rightarrow> fval" where
  "fdiv a b =
     (if b = 0 then (if a = 0 then NaN else if 0 < a then PInf else NInf)
      else Fin (a / b))"

definition vezes100 :: "fval \<Rightarrow> fval" where
  "vezes100 x = (case x of Fin a \<Rightarrow> Fin (a * 100) | NaN \<Rightarrow> NaN | PInf \<Rightarrow> PInf | NInf \<Rightarrow> NInf)"

text \<open>
  \<^verbatim>\<open>.round(2)\<close> is numpy's rounding: the value times 100 is rounded to the nearest
  integer, a tie going to the even one (\<open>rint\<close>), and divided by 100. NaN and the
  infinities are left as they are.
\<close>

definition rint :: "rat \<Rightarrow> int" where
  "rint y =
     (let f = \<lfloor>y\<rfloor>; d = y - of_int f
      in if d < 1 / 2 then f else if 1 / 2 < d then f + 1 else if even f then f else f + 1)"

definition round2 :: "rat \<Rightarrow> rat" where
  "round2 x = of_int (rint (x * 100)) / 100"

definition fround2 :: "fval \<Rightarrow> fval" where
  "fround2 x = (case x of Fin a \<Rightarrow> Fin (round2 a) | NaN \<Rightarrow> NaN | PInf \<Rightarrow> PInf | NInf \<Rightarrow> NInf)"

subsection \<open>Aggregation by month, payer and modality (lines 110-116)\<close>

record exame_row =
  Mes :: "string option"
  e_Convenio :: string
  e_Modalidade :: string
  Qtd :: nat
  Receita_Bruta :: rat
  Receita_Liquida :: rat

text \<open>The three key columns of line 110; \<open>Modalidade\<close> is never missing.\<close>

definition chave_mes_convenio_modalidade :: "registro \<Rightarrow> (string \<times> string \<times> string) option" where
  "chave_mes_convenio_modalidade r =
     (case Ano_Mes r of
        None \<Rightarrow> None
      | Some m \<Rightarrow> (case Convenio r of None \<Rightarrow> None | Some c \<Rightarrow> Some (m, c, Modalidade r)))"

definition agg_exames_mes_convenio_modalidade :: "registro list \<Rightarrow> exame_row list" where
  "agg_exames_mes_convenio_modalidade df =
     filter (\<lambda>x. notna (Mes x))
       (map (\<lambda>((m, c, md), g).
              \<lparr>Mes = Some m, e_Convenio = c, e_Modalidade = md,
               Qtd = agg_count Nome_Paciente g,
               Receita_Bruta = agg_sum Valor_Exame g,
               Receita_Liquida = agg_sum RDF g\<rparr>)
          (groupby chave_mes_convenio_modalidade df))"

subsection \<open>Monthly summary (lines 119-126)\<close>

record resumo_row =
  r_Mes :: "string option"
  Qtd_Exames :: nat
  r_Receita_Bruta :: rat
  r_Receita_Liquida :: rat
  Percentual_Lucro :: fval

definition agg_resumo_mensal :: "registro list \<Rightarrow> resumo_row list" where
  "agg_resumo_mensal df =
     filter (\<lambda>x. notna (r_Mes x))
       (map (\<lambda>(m, g).
              \<lparr>r_Mes = Some m,
               Qtd_Exames = agg_count Nome_Paciente g,
               r_Receita_Bruta = agg_sum Valor_Exame g,
               r_Receita_Liquida = agg_sum RDF g,
               Percentual_Lucro =
                 fround2 (vezes100 (fdiv (agg_sum RDF g) (agg_sum Valor_Exame g)))\<rparr>)
          (groupby Ano_Mes df))"

subsection \<open>Distribution by payer and by modality (lines 129-146)\<close>

text \<open>
  The two distributions are the same code over two key columns; \<open>grupo\<close> is the column
  that the frame names \<^verbatim>\<open>Convenio\<close> in \<^verbatim>\<open>dist_convenio\<close> and \<^verbatim>\<open>Modalidade\<close> in
  \<^verbatim>\<open>dist_modalidade\<close>.
\<close>

record dist_row =
  grupo :: string
  d_Qtd :: nat
  d_Receita_Bruta :: rat
  d_Receita_Liquida :: rat
  Percentual :: fval

text \<open>The frame before \<^verbatim>\<open>sort_values\<close>: the groups in key order, with the share of each.\<close>

definition dist_grupos :: "(registro \<Rightarrow> string option) \<Rightarrow> registro list \<Rightarrow> dist_row list" where
  "dist_grupos chave df =
     (let gs = groupby chave df;
          total = (\<Sum>(k, g)\<leftarrow>gs. agg_count Nome_Paciente g)
      in map (\<lambda>(k, g).
              \<lparr>grupo = k,
               d_Qtd = agg_count Nome_Paciente g,
               d_Receita_Bruta = agg_sum Valor_Exame g,
               d_Receita_Liquida = agg_sum RDF g,
               Percentual =
                 fround2 (vezes100 (fdiv (of_nat (agg_count Nome_Paciente g)) (of_nat total)))\<rparr>)
           gs)"

text \<open>
  \<^verbatim>\<open>sort_values('Qtd', ascending=False)\<close>. pandas sorts a descending column by reversing,
  sorting ascending and reversing back, so that ties stay in the order of the frame
  whenever the underlying sort keeps them in place; the default \<^verbatim>\<open>kind='quicksort'\<close> does
  so on the short arrays of a distribution (numpy sorts them by insertion) and promises
  nothing beyond. The model is the stable descending sort: \<^const>\<open>sort_key\<close> on the
  negated count.
\<close>

definition sort_values_Qtd_desc :: "dist_row list \<Rightarrow> dist_row list" where
  "sort_values_Qtd_desc rows = sort_key (\<lambda>x. - int (d_Qtd x)) rows"

definition agg_dist_convenio :: "registro list \<Rightarrow> dist_row list" where
  "agg_dist_convenio df = sort_values_Qtd_desc (dist_grupos Convenio df)"

definition agg_dist_modalidade :: "registro list \<Rightarrow> dist_row list" where
  "agg_dist_modalidade df = sort_values_Qtd_desc (dist_grupos (\<lambda>r. Some (Modalidade r)) df)"

subsection \<open>Modality by month (lines 149-153)\<close>

record modalidade_mes_row =
  m_Mes :: "string option"
  m_Modalidade :: string
  m_Qtd :: nat

definition chave_mes_modalidade :: "registro \<Rightarrow> (string \<times> string) option" where
  "chave_mes_modalidade r =
     (case Ano_Mes r of None \<Rightarrow> None | Some m \<Rightarrow> Some (m, Modalidade r))"

definition agg_dist_modalidade_mes :: "registro list \<Rightarrow> modalidade_mes_row list" where
  "agg_dist_modalidade_mes df =
     filter (\<lambda>x. notna (m_Mes x))
       (map (\<lambda>((m, md), g).
              \<lparr>m_Mes = Some m, m_Modalidade = md, m_Qtd = agg_count Nome_Paciente g\<rparr>)
          (groupby chave_mes_modalidade df))"

subsection \<open>The payload (lines 156-163)\<close>

record data_json =
  exames_mes_convenio_modalidade :: "exame_row list"
  resumo_mensal :: "resumo_row list"
  dist_convenio :: "dist_row list"
  dist_modalidade :: "dist_row list"
  dist_modalidade_mes :: "modalidade_mes_row list"
  ultima_atualizacao :: string

text \<open>The aggregation of a data frame; \<open>agora\<close> is the formatted clock reading.\<close>

definition agregar :: "string \<Rightarrow> registro list \<Rightarrow> data_json" where
  "agregar agora df =
     \<lparr>exames_mes_convenio_modalidade = agg_exames_mes_convenio_modalidade df,
      resumo_mensal = agg_resumo_mensal df,
      dist_convenio = agg_dist_convenio df,
      dist_modalidade = agg_dist_modalidade df,
      dist_modalidade_mes = agg_dist_modalidade_mes df,
      ultima_atualizacao = agora\<rparr>"

definition processar_dados ::
  "('c \<Rightarrow> timestamp option) \<Rightarrow> ('c \<Rightarrow> rat option) \<Rightarrow> string \<Rightarrow> 'c linha list \<Rightarrow> data_json" where
  "processar_dados to_datetime to_numeric agora planilha =
     agregar agora (carregar to_datetime to_numeric planilha)"

section \<open>The script of the generated page (lines 563-783)\<close>

text \<open>
  The page holds two copies of the payload: \<^verbatim>\<open>allData\<close>, never written after it is loaded,
  and \<^verbatim>\<open>filteredData\<close>, which every filter change rebuilds from \<^verbatim>\<open>allData\<close>
  (\<^verbatim>\<open>JSON.parse(JSON.stringify(allData))\<close> is a deep copy). The value of a select box is
  a string, empty for the option "Todos".
\<close>

subsection \<open>aplicarFiltros (lines 615-638)\<close>

text \<open>\<open>marcadas\<close> is the array that the script calls \<^verbatim>\<open>modalidades\<close>: the values of the checked boxes.\<close>

definition aplicarFiltros :: "string \<Rightarrow> string \<Rightarrow> string list \<Rightarrow> data_json \<Rightarrow> data_json" where
  "aplicarFiltros convenio mes marcadas allData =
     (let filteredData = allData;
          filteredData =
            (if convenio \<noteq> [] then
               filteredData\<lparr>exames_mes_convenio_modalidade :=
                 filter (\<lambda>x. e_Convenio x = convenio)
                   (exames_mes_convenio_modalidade filteredData)\<rparr>
             else filteredData);
          filteredData =
            (if mes \<noteq> [] then
               filteredData\<lparr>exames_mes_convenio_modalidade :=
                 filter (\<lambda>x. Mes x = Some mes)
                   (exames_mes_convenio_modalidade filteredData)\<rparr>
             else filteredData);
          filteredData =
            (if length marcadas > 0 then
               filteredData\<lparr>exames_mes_convenio_modalidade :=
                 filter (\<lambda>x. e_Modalidade x \<in> set marcadas)
                   (exames_mes_convenio_modalidade filteredData)\<rparr>
             else filteredData)
      in filteredData)"

text \<open>\<^verbatim>\<open>limparFiltros\<close> (lines 640-646) resets the controls and copies \<^verbatim>\<open>allData\<close>.\<close>

definition limparFiltros :: "data_json \<Rightarrow> data_json" where
  "limparFiltros allData = allData"

subsection \<open>atualizarKPIs (lines 655-666)\<close>

text \<open>
  \<^verbatim>\<open>x.toFixed(2)\<close>: the decimal with two fraction digits nearest to \<open>x\<close>, the larger one
  on a tie, the sign treated apart. The model keeps the number that the string denotes.
\<close>

definition toFixed2 :: "rat \<Rightarrow> rat" where
  "toFixed2 x =
     (if x < 0 then - (of_int \<lfloor>- x * 100 + 1 / 2\<rfloor> / 100)
      else of_int \<lfloor>x * 100 + 1 / 2\<rfloor> / 100)"

record kpis =
  kpiExames :: nat
  kpiReceitaBruta :: rat
  kpiReceitaLiquida :: rat
  kpiLucro :: rat

definition atualizarKPIs :: "data_json \<Rightarrow> kpis" where
  "atualizarKPIs filteredData =
     (let dados = exames_mes_convenio_modalidade filteredData;
          qtd = foldl (\<lambda>sum x. sum + Qtd x) 0 dados;
          bruta = foldl (\<lambda>sum x. sum + Receita_Bruta x) 0 dados;
          liquida = foldl (\<lambda>sum x. sum + Receita_Liquida x) 0 dados;
          lucro = (if bruta > 0 then toFixed2 ((liquida / bruta) * 100) else 0)
      in \<lparr>kpiExames = qtd, kpiReceitaBruta = bruta, kpiReceitaLiquida = liquida,
          kpiLucro = lucro\<rparr>)"

subsection \<open>atualizarGraficos (lines 668-741)\<close>

text \<open>
  The object \<^verbatim>\<open>examesPosMes\<close> is an association list in insertion order (the order of
  \<^verbatim>\<open>Object.keys\<close> for keys that are not array indices). The statement
  \<^verbatim>\<open>examesPosMes[x.Mes] = (examesPosMes[x.Mes] || 0) + x.Qtd\<close> adds to the entry of the key,
  or appends a new entry.
\<close>

fun acumular :: "('k \<times> nat) list \<Rightarrow> 'k \<Rightarrow> nat \<Rightarrow> ('k \<times> nat) list" where
  "acumular [] k q = [(k, 0 + q)]"
| "acumular ((k', v) # resto) k q =
     (if k' = k then (k', v + q) # resto else (k', v) # acumular resto k q)"

definition examesPosMes :: "exame_row list \<Rightarrow> (string option \<times> nat) list" where
  "examesPosMes dados = foldl (\<lambda>obj x. acumular obj (Mes x) (Qtd x)) [] dados"

record graficos =
  chartExamesMes_labels :: "string option list"
  chartExamesMes_data :: "nat list"
  chartConvenio_labels :: "string list"
  chartConvenio_data :: "nat list"
  chartModalidade_labels :: "string list"
  chartModalidade_data :: "nat list"
  chartModalidadeQtd_labels :: "string list"
  chartModalidadeQtd_data :: "nat list"

definition atualizarGraficos :: "data_json \<Rightarrow> data_json \<Rightarrow> graficos" where
  "atualizarGraficos allData filteredData =
     (let porMes = examesPosMes (exames_mes_convenio_modalidade filteredData);
          convenioDados = filter (\<lambda>x. grupo x \<noteq> ''CORTESIA'') (dist_convenio allData);
          modalidadeDados = filter (\<lambda>x. grupo x \<noteq> ''Outros'') (dist_modalidade allData)
      in \<lparr>chartExamesMes_labels = map fst porMes,
          chartExamesMes_data = map snd porMes,
          chartConvenio_labels = map grupo convenioDados,
          chartConvenio_data = map d_Qtd convenioDados,
          chartModalidade_labels = map grupo modalidadeDados,
          chartModalidade_data = map d_Qtd modalidadeDados,
          chartModalidadeQtd_labels = map grupo modalidadeDados,
          chartModalidadeQtd_data = map d_Qtd modalidadeDados\<rparr>)"

subsection \<open>atualizarTabela and atualizarCards (lines 743-783)\<close>

definition atualizarTabela :: "data_json \<Rightarrow> exame_row list" where
  "atualizarTabela filteredData = exames_mes_convenio_modalidade filteredData"

record card =
  card_Modalidade :: string
  card_Quantidade :: nat
  card_Receita_Bruta :: rat
  card_Receita_Liquida :: rat

definition atualizarCards :: "data_json \<Rightarrow> card list" where
  "atualizarCards allData =
     map (\<lambda>modal. \<lparr>card_Modalidade = grupo modal, card_Quantidade = d_Qtd modal,
                 card_Receita_Bruta = d_Receita_Bruta modal,
                 card_Receita_Liquida = d_Receita_Liquida modal\<rparr>)
       (filter (\<lambda>x. grupo x \<noteq> ''Outros'') (dist_modalidade allData))"

subsection \<open>atualizarDashboard (lines 648-653)\<close>

record dashboard =
  tela_kpis :: kpis
  tela_graficos :: graficos
  tela_tabela :: "exame_row list"
  tela_cards :: "card list"

definition atualizarDashboard :: "data_json \<Rightarrow> data_json \<Rightarrow> dashboard" where
  "atualizarDashboard allData filteredData =
     \<lparr>tela_kpis = atualizarKPIs filteredData,
      tela_graficos = atualizarGraficos allData filteredData,
      tela_tabela = atualizarTabela filteredData,
      tela_cards = atualizarCards allData\<rparr>"

text \<open>What the page shows once the controls hold the given filter.\<close>

definition filtrar_e_atualizar ::
  "data_json \<Rightarrow> string \<Rightarrow> string \<Rightarrow> string list \<Rightarrow> dashboard" where
  "filtrar_e_atualizar allData convenio mes marcadas =
     atualizarDashboard allData (aplicarFiltros convenio mes marcadas allData)"

section \<open>Notions of the specification\<close>



text \<open>The distinct elements of a list in the order in which they are first seen.\<close>

definition primeiros :: "'a list \<Rightarrow> 'a list" where
  "primeiros xs = rev (remdups (rev xs))"

section \<open>Records for the examples\<close>

text \<open>
  A record of the data frame given by the six columns that the aggregations read; the
  card fee and the two share columns are left empty.
\<close>

definition reg ::
  "string option \<Rightarrow> timestamp option \<Rightarrow> string option \<Rightarrow> string option \<Rightarrow>
   rat option \<Rightarrow> rat option \<Rightarrow> registro" where
  "reg nome data convenio exame valor rdf =
     \<lparr>Nome_Paciente = nome, Data_Realizacao = data, Convenio = convenio,
      Exame_Realizado = exame, Valor_Exame = valor, Taxa_Cartao = None,
      Percentual_SASE = None, Percentual_Medico = None, RDF = rdf\<rparr>"

text \<open>
  A row of a sheet whose cells are text, and two coercing parsers for the examples:
  they know one date and two amounts, and give a missing value for any other cell.
\<close>

definition lin ::
  "string option \<Rightarrow> string \<Rightarrow> string option \<Rightarrow> string option \<Rightarrow> string \<Rightarrow> string \<Rightarrow>
   string linha" where
  "lin nome data convenio exame valor rdf =
     \<lparr>col_Nome_Paciente = nome, col_Data_Realizacao = data, col_Convenio = convenio,
      col_Exame_Realizado = exame, col_Valor_Exame = valor, col_Taxa_Cartao = [],
      col_Percentual_SASE = [], col_Percentual_Medico = [], col_RDF = rdf\<rparr>"

definition exemplo_to_datetime :: "string \<Rightarrow> timestamp option" where
  "exemplo_to_datetime c = (if c = ''2024-01-15'' then Some (2024, 1, 15) else None)"

definition exemplo_to_numeric :: "string \<Rightarrow> rat option" where
  "exemplo_to_numeric c =
     (if c = ''100'' then Some 100 else if c = ''90'' then Some 90 else None)"

section \<open>Properties of the classifier\<close>

lemma upper_char_blank:
  "c = CHR '' '' \<or> c = CHR 0x09 \<or> c = CHR 0x0A \<or> c = CHR 0x0D \<Longrightarrow> upper_char c = c"
  by (auto simp: upper_char_def)

lemma upper_blank: "blank d \<Longrightarrow> blank (upper d)"
  by (induction d) (auto simp: blank_def upper_def upper_char_blank)

lemma sublist_blank:
  assumes "sublist k s" and "blank s"
  shows "blank k"
proof -
  from assms(1) obtain ps ss where "s = ps @ k @ ss"
    by (auto simp: sublist_def)
  with assms(2) show ?thesis
    by (simp add: blank_def)
qed

lemma percorrer_blank:
  assumes "blank s"
  shows "percorrer modalidades s = ''Outros''"
proof -
  have no: "\<not> sublist k s" if "\<not> blank k" for k
    using sublist_blank [OF _ assms] that by blast
  show ?thesis
    by (simp add: modalidades_def no blank_def)
qed

lemma percorrer_find:
  "percorrer (map (\<lambda>(k, m). (k, modality_name m)) rules) s =
     (case find (\<lambda>(k, m). sublist k s) rules of
        None \<Rightarrow> ''Outros''
      | Some (k, m) \<Rightarrow> modality_name m)"
  by (induction rules) auto

lemma modalidades_rule_table:
  "modalidades = map (\<lambda>(k, m). (k, modality_name m)) rule_table"
  by (simp add: modalidades_def rule_table_def)

lemma categorizar_classify:
  "categorizar_modalidade description = modality_name (classify description)"
proof (cases description)
  case None
  then show ?thesis
    by (simp add: categorizar_modalidade_def classify_def)
next
  case (Some d)
  show ?thesis
  proof (cases "blank d")
    case True
    then show ?thesis
      using percorrer_blank [OF upper_blank [OF True]] Some
      by (simp add: categorizar_modalidade_def classify_def)
  next
    case False
    then show ?thesis
      using Some
      by (simp add: categorizar_modalidade_def classify_def modalidades_rule_table
          percorrer_find split: option.splits)
  qed
qed

text \<open>
  C5 (as stated, refuted). The claim ends: a description containing both "RX" and
  "DOPPLER" classifies as X-Ray. The description "MAMOGRAFIA RX DOPPLER" contains both
  and is classified as Mamografia, because the MAMOGRAFIA rule is scanned first.
\<close>

theorem C5_rx_doppler_counterexample:
  "\<not> (\<forall>e. sublist ''RX'' (upper e) \<and> sublist ''DOPPLER'' (upper e)
        \<longrightarrow> categorizar_modalidade (Some e) = ''Raio X'')"
proof
  assume all: "\<forall>e. sublist ''RX'' (upper e) \<and> sublist ''DOPPLER'' (upper e)
        \<longrightarrow> categorizar_modalidade (Some e) = ''Raio X''"
  have "sublist ''RX'' (upper ''MAMOGRAFIA RX DOPPLER'')"
    by code_simp
  moreover have "sublist ''DOPPLER'' (upper ''MAMOGRAFIA RX DOPPLER'')"
    by code_simp
  ultimately have "categorizar_modalidade (Some ''MAMOGRAFIA RX DOPPLER'') = ''Raio X''"
    using all by blast
  moreover have "categorizar_modalidade (Some ''MAMOGRAFIA RX DOPPLER'') = ''Mamografia''"
    by code_simp
  ultimately show False
    by simp
qed

text \<open>
  C5 (amended). For every description, \<open>categorizar_modalidade\<close> returns Outros (Other)
  when the description is null or blank, otherwise the category of the first rule of the
  fixed ordered table whose substring occurs in the uppercased description, and Outros
  when no rule matches: it computes \<open>classify\<close>. A description that contains both "RX"
  and "DOPPLER", and none of the substrings of the four rules scanned before them that
  name another category (MAMOGRAFIA, DENSITOMETRIA, ULTRASSONOGRAFIA, ULTRASSOM),
  is classified as Raio X (X-Ray).
\<close>

theorem C5_classifier_first_match:
  "categorizar_modalidade description = modality_name (classify description)
   \<and> (sublist ''RX'' (upper e) \<and> sublist ''DOPPLER'' (upper e)
        \<and> \<not> sublist ''MAMOGRAFIA'' (upper e) \<and> \<not> sublist ''DENSITOMETRIA'' (upper e)
        \<and> \<not> sublist ''ULTRASSONOGRAFIA'' (upper e) \<and> \<not> sublist ''ULTRASSOM'' (upper e)
      \<longrightarrow> categorizar_modalidade (Some e) = ''Raio X'' \<and> classify (Some e) = X_Ray)"
proof (intro conjI impI)
  show "categorizar_modalidade description = modality_name (classify description)"
    by (rule categorizar_classify)
next
  assume h: "sublist ''RX'' (upper e) \<and> sublist ''DOPPLER'' (upper e)
        \<and> \<not> sublist ''MAMOGRAFIA'' (upper e) \<and> \<not> sublist ''DENSITOMETRIA'' (upper e)
        \<and> \<not> sublist ''ULTRASSONOGRAFIA'' (upper e) \<and> \<not> sublist ''ULTRASSOM'' (upper e)"
  then show "categorizar_modalidade (Some e) = ''Raio X''"
    by (simp add: categorizar_modalidade_def modalidades_def)
next
  assume h: "sublist ''RX'' (upper e) \<and> sublist ''DOPPLER'' (upper e)
        \<and> \<not> sublist ''MAMOGRAFIA'' (upper e) \<and> \<not> sublist ''DENSITOMETRIA'' (upper e)
        \<and> \<not> sublist ''ULTRASSONOGRAFIA'' (upper e) \<and> \<not> sublist ''ULTRASSOM'' (upper e)"
  have nb: "\<not> blank e"
  proof
    assume "blank e"
    then have "blank ''RX''"
      using sublist_blank [of "''RX''" "upper e"] upper_blank h by blast
    then show False
      by (simp add: blank_def)
  qed
  show "classify (Some e) = X_Ray"
    using h nb by (simp add: classify_def rule_table_def)
qed

theorem C5_classifier_first_match_witness:
  "categorizar_modalidade (Some ''rx doppler'') = modality_name (classify (Some ''rx doppler''))
   \<and> sublist ''RX'' (upper ''rx doppler'') \<and> sublist ''DOPPLER'' (upper ''rx doppler'')
   \<and> categorizar_modalidade (Some ''rx doppler'') = ''Raio X''
   \<and> classify (Some ''rx doppler'') = X_Ray"
proof -
  have rx: "sublist ''RX'' (upper ''rx doppler'')"
    by code_simp
  have dp: "sublist ''DOPPLER'' (upper ''rx doppler'')"
    by code_simp
  have no: "\<not> sublist ''MAMOGRAFIA'' (upper ''rx doppler'')"
    "\<not> sublist ''DENSITOMETRIA'' (upper ''rx doppler'')"
    "\<not> sublist ''ULTRASSONOGRAFIA'' (upper ''rx doppler'')"
    "\<not> sublist ''ULTRASSOM'' (upper ''rx doppler'')"
    by code_simp+
  show ?thesis
    using C5_classifier_first_match [of "Some ''rx doppler''" "''rx doppler''"] rx dp no
    by blast
qed

section \<open>Properties of the aggregations\<close>

subsection \<open>Sums over the groups of a groupby\<close>

lemma sum_list_delta:
  fixes a :: "'a::comm_monoid_add"
  shows "distinct ks \<Longrightarrow> k0 \<in> set ks \<Longrightarrow> (\<Sum>k\<leftarrow>ks. if k = k0 then a else 0) = a"
proof (induction ks)
  case Nil
  then show ?case by simp
next
  case (Cons k ks)
  show ?case
  proof (cases "k = k0")
    case True
    with Cons.prems have "k0 \<notin> set ks" by simp
    then have "(\<Sum>k\<leftarrow>ks. if k = k0 then a else 0) = 0"
      by (induction ks) auto
    with True show ?thesis by simp
  next
    case False
    with Cons show ?thesis by simp
  qed
qed

lemma sum_groups:
  fixes f :: "'r \<Rightarrow> 'a::comm_monoid_add"
  assumes "distinct ks"
  shows "List.map_filter chave df = ks' \<Longrightarrow> set ks' \<subseteq> set ks \<Longrightarrow>
    (\<Sum>k\<leftarrow>ks. \<Sum>r\<leftarrow>filter (\<lambda>r. chave r = Some k) df. f r) =
    (\<Sum>r\<leftarrow>filter (\<lambda>r. chave r \<noteq> None) df. f r)"
proof (induction df arbitrary: ks')
  case Nil
  then show ?case by simp
next
  case (Cons r df)
  show ?case
  proof (cases "chave r")
    case None
    then have "List.map_filter chave (r # df) = List.map_filter chave df"
      by (simp add: List.map_filter_simps)
    with Cons.prems have "set (List.map_filter chave df) \<subseteq> set ks" by simp
    from Cons.IH [OF refl this] None show ?thesis by simp
  next
    case (Some k0)
    then have mf: "List.map_filter chave (r # df) = k0 # List.map_filter chave df"
      by (simp add: List.map_filter_simps)
    with Cons.prems have k0: "k0 \<in> set ks" and sub: "set (List.map_filter chave df) \<subseteq> set ks"
      by auto
    have "(\<Sum>k\<leftarrow>ks. \<Sum>r\<leftarrow>filter (\<lambda>r. chave r = Some k) (r # df). f r) =
      (\<Sum>k\<leftarrow>ks. (if k = k0 then f r else 0) + (\<Sum>r\<leftarrow>filter (\<lambda>r. chave r = Some k) df. f r))"
      using Some by (intro arg_cong [where f = sum_list] map_cong refl) auto
    also have "\<dots> = f r + (\<Sum>k\<leftarrow>ks. \<Sum>r\<leftarrow>filter (\<lambda>r. chave r = Some k) df. f r)"
      by (simp add: sum_list_addf sum_list_delta [OF assms k0])
    also have "\<dots> = f r + (\<Sum>r\<leftarrow>filter (\<lambda>r. chave r \<noteq> None) df. f r)"
      using Cons.IH [OF refl sub] by simp
    finally show ?thesis using Some by simp
  qed
qed

lemma groupby_keys: "map fst (groupby chave df) = sort (remdups (List.map_filter chave df))"
  by (simp add: groupby_def comp_def)

lemma groupby_sum:
  fixes f :: "'r \<Rightarrow> 'a::comm_monoid_add"
  shows "(\<Sum>(k, g)\<leftarrow>groupby chave df. \<Sum>r\<leftarrow>g. f r) = (\<Sum>r\<leftarrow>filter (\<lambda>r. chave r \<noteq> None) df. f r)"
proof -
  let ?ks = "sort (remdups (List.map_filter chave df))"
  have "(\<Sum>(k, g)\<leftarrow>groupby chave df. \<Sum>r\<leftarrow>g. f r) =
    (\<Sum>k\<leftarrow>?ks. \<Sum>r\<leftarrow>filter (\<lambda>r. chave r = Some k) df. f r)"
    by (simp add: groupby_def comp_def)
  also have "\<dots> = (\<Sum>r\<leftarrow>filter (\<lambda>r. chave r \<noteq> None) df. f r)"
    by (rule sum_groups [where ks' = "List.map_filter chave df"]) simp_all
  finally show ?thesis .
qed

lemma agg_count_sum: "agg_count col g = (\<Sum>r\<leftarrow>g. if col r \<noteq> None then 1 else 0)"
  by (induction g) (simp_all add: agg_count_def)

lemma foldl_add:
  fixes a :: "'a::comm_monoid_add"
  shows "foldl (\<lambda>s x. s + f x) a xs = a + (\<Sum>x\<leftarrow>xs. f x)"
  by (induction xs arbitrary: a) (simp_all add: add.assoc)


lemma Ano_Mes_notna: "Ano_Mes r \<noteq> None"
  by (simp add: Ano_Mes_def split: option.splits prod.splits)

lemma chave_mcm_None:
  "filter (\<lambda>r. chave_mes_convenio_modalidade r \<noteq> None) df = filter (\<lambda>r. Convenio r \<noteq> None) df"
proof (rule filter_cong [OF refl])
  fix r
  show "(chave_mes_convenio_modalidade r \<noteq> None) = (Convenio r \<noteq> None)"
    using Ano_Mes_notna [of r]
    by (auto simp: chave_mes_convenio_modalidade_def split: option.splits)
qed


lemma exames_rows:
  "agg_exames_mes_convenio_modalidade df =
     map (\<lambda>((m, c, md), g).
            \<lparr>Mes = Some m, e_Convenio = c, e_Modalidade = md,
             Qtd = agg_count Nome_Paciente g,
             Receita_Bruta = agg_sum Valor_Exame g,
             Receita_Liquida = agg_sum RDF g\<rparr>)
       (groupby chave_mes_convenio_modalidade df)"
  unfolding agg_exames_mes_convenio_modalidade_def
  by (rule filter_True) (auto simp: notna_def)

lemma resumo_rows:
  "agg_resumo_mensal df =
     map (\<lambda>(m, g).
            \<lparr>r_Mes = Some m,
             Qtd_Exames = agg_count Nome_Paciente g,
             r_Receita_Bruta = agg_sum Valor_Exame g,
             r_Receita_Liquida = agg_sum RDF g,
             Percentual_Lucro =
               fround2 (vezes100 (fdiv (agg_sum RDF g) (agg_sum Valor_Exame g)))\<rparr>)
       (groupby Ano_Mes df)"
  unfolding agg_resumo_mensal_def
  by (rule filter_True) (auto simp: notna_def)

lemma exames_total_Qtd:
  "(\<Sum>x\<leftarrow>agg_exames_mes_convenio_modalidade df. Qtd x) =
     agg_count Nome_Paciente (filter (\<lambda>r. Convenio r \<noteq> None) df)"
proof -
  have "(\<Sum>x\<leftarrow>agg_exames_mes_convenio_modalidade df. Qtd x) =
    (\<Sum>(k, g)\<leftarrow>groupby chave_mes_convenio_modalidade df.
       \<Sum>r\<leftarrow>g. if Nome_Paciente r \<noteq> None then 1 else 0)"
    by (simp add: exames_rows comp_def case_prod_unfold agg_count_sum)
  then show ?thesis
    by (simp only: groupby_sum chave_mcm_None agg_count_sum)
qed

lemma exames_total_Bruta:
  "(\<Sum>x\<leftarrow>agg_exames_mes_convenio_modalidade df. Receita_Bruta x) =
     agg_sum Valor_Exame (filter (\<lambda>r. Convenio r \<noteq> None) df)"
proof -
  have "(\<Sum>x\<leftarrow>agg_exames_mes_convenio_modalidade df. Receita_Bruta x) =
    (\<Sum>(k, g)\<leftarrow>groupby chave_mes_convenio_modalidade df.
       \<Sum>r\<leftarrow>g. case Valor_Exame r of None \<Rightarrow> 0 | Some v \<Rightarrow> v)"
    by (simp add: exames_rows comp_def case_prod_unfold agg_sum_def)
  then show ?thesis
    by (simp only: groupby_sum chave_mcm_None agg_sum_def)
qed

lemma exames_total_Liquida:
  "(\<Sum>x\<leftarrow>agg_exames_mes_convenio_modalidade df. Receita_Liquida x) =
     agg_sum RDF (filter (\<lambda>r. Convenio r \<noteq> None) df)"
proof -
  have "(\<Sum>x\<leftarrow>agg_exames_mes_convenio_modalidade df. Receita_Liquida x) =
    (\<Sum>(k, g)\<leftarrow>groupby chave_mes_convenio_modalidade df.
       \<Sum>r\<leftarrow>g. case RDF r of None \<Rightarrow> 0 | Some v \<Rightarrow> v)"
    by (simp add: exames_rows comp_def case_prod_unfold agg_sum_def)
  then show ?thesis
    by (simp only: groupby_sum chave_mcm_None agg_sum_def)
qed




lemma aplicarFiltros_vazio: "aplicarFiltros [] [] [] allData = allData"
  by (simp add: aplicarFiltros_def)

lemma kpis_sums:
  "kpiExames (atualizarKPIs fd) = (\<Sum>x\<leftarrow>exames_mes_convenio_modalidade fd. Qtd x)"
  "kpiReceitaBruta (atualizarKPIs fd) = (\<Sum>x\<leftarrow>exames_mes_convenio_modalidade fd. Receita_Bruta x)"
  "kpiReceitaLiquida (atualizarKPIs fd) = (\<Sum>x\<leftarrow>exames_mes_convenio_modalidade fd. Receita_Liquida x)"
  "kpiLucro (atualizarKPIs fd) =
     (if 0 < (\<Sum>x\<leftarrow>exames_mes_convenio_modalidade fd. Receita_Bruta x)
      then toFixed2 ((\<Sum>x\<leftarrow>exames_mes_convenio_modalidade fd. Receita_Liquida x)
             / (\<Sum>x\<leftarrow>exames_mes_convenio_modalidade fd. Receita_Bruta x) * 100)
      else 0)"
  by (simp_all add: atualizarKPIs_def Let_def foldl_add)


subsection \<open>Totals of the page against the monthly summary\<close>




subsection \<open>The count identity\<close>

lemma agg_count_append: "agg_count col (g @ h) = agg_count col g + agg_count col h"
  by (simp add: agg_count_def)

lemma agg_sum_append: "agg_sum col (g @ h) = agg_sum col g + agg_sum col h"
  by (simp add: agg_sum_def)

text \<open>
  C3 (as stated, refuted). Two records with a valid date, one without payer and one
  without patient name: both have a month key, and the counts of the aggregation by
  month, payer and modality add up to 0, not 2. \<^verbatim>\<open>groupby\<close> drops the row whose payer
  is missing, and \<^verbatim>\<open>'Nome_Paciente': 'count'\<close> counts the patient cells that are filled.
\<close>

theorem C3_count_counterexample:
  "(\<Sum>x\<leftarrow>agg_exames_mes_convenio_modalidade
        [reg (Some ''ANA'') (Some (2024, 1, 15)) None (Some ''RX TORAX'') (Some 100) (Some 90),
         reg None (Some (2024, 1, 20)) (Some ''UNIMED'') (Some ''RX TORAX'') (Some 100) (Some 90)].
      Qtd x) = 0
   \<and> length (filter (\<lambda>r. Ano_Mes r \<noteq> None \<and> Data_Realizacao r \<noteq> None)
        [reg (Some ''ANA'') (Some (2024, 1, 15)) None (Some ''RX TORAX'') (Some 100) (Some 90),
         reg None (Some (2024, 1, 20)) (Some ''UNIMED'') (Some ''RX TORAX'') (Some 100) (Some 90)])
      = 2"
  by code_simp

text \<open>
  C3 (amended). For every record set R whose records all have a parsable date, the sum of
  the count field over the rows of the aggregation by month, payer and modality equals
  the number of records of R that have a month key, a payer and a patient name. A further
  record with date, payer and patient name adds 1 to that sum whatever its numeric fields
  hold; lacking a gross value it adds 0 to the gross sums, and lacking a net value it adds
  0 to the net sums.
\<close>

theorem C3_count_identity:
  assumes "\<forall>r \<in> set df. Data_Realizacao r \<noteq> None"
  shows
    "(\<Sum>x\<leftarrow>agg_exames_mes_convenio_modalidade df. Qtd x)
       = length (filter (\<lambda>r. Data_Realizacao r \<noteq> None \<and> Convenio r \<noteq> None
                             \<and> Nome_Paciente r \<noteq> None) df)
     \<and> (Data_Realizacao r \<noteq> None \<and> Convenio r \<noteq> None \<and> Nome_Paciente r \<noteq> None
        \<longrightarrow> (\<Sum>x\<leftarrow>agg_exames_mes_convenio_modalidade (df @ [r]). Qtd x)
              = (\<Sum>x\<leftarrow>agg_exames_mes_convenio_modalidade df. Qtd x) + 1)
     \<and> (Valor_Exame r = None
        \<longrightarrow> (\<Sum>x\<leftarrow>agg_exames_mes_convenio_modalidade (df @ [r]). Receita_Bruta x)
              = (\<Sum>x\<leftarrow>agg_exames_mes_convenio_modalidade df. Receita_Bruta x))
     \<and> (RDF r = None
        \<longrightarrow> (\<Sum>x\<leftarrow>agg_exames_mes_convenio_modalidade (df @ [r]). Receita_Liquida x)
              = (\<Sum>x\<leftarrow>agg_exames_mes_convenio_modalidade df. Receita_Liquida x))"
proof (intro conjI impI)
  have "filter (\<lambda>r. Data_Realizacao r \<noteq> None \<and> Convenio r \<noteq> None \<and> Nome_Paciente r \<noteq> None) df
      = filter (\<lambda>r. Nome_Paciente r \<noteq> None) (filter (\<lambda>r. Convenio r \<noteq> None) df)"
    using assms by (induction df) auto
  then show "(\<Sum>x\<leftarrow>agg_exames_mes_convenio_modalidade df. Qtd x)
       = length (filter (\<lambda>r. Data_Realizacao r \<noteq> None \<and> Convenio r \<noteq> None
                             \<and> Nome_Paciente r \<noteq> None) df)"
    by (simp only: exames_total_Qtd agg_count_def)
next
  assume "Data_Realizacao r \<noteq> None \<and> Convenio r \<noteq> None \<and> Nome_Paciente r \<noteq> None"
  then show "(\<Sum>x\<leftarrow>agg_exames_mes_convenio_modalidade (df @ [r]). Qtd x)
              = (\<Sum>x\<leftarrow>agg_exames_mes_convenio_modalidade df. Qtd x) + 1"
    by (simp add: exames_total_Qtd agg_count_append) (simp add: agg_count_def)
next
  assume "Valor_Exame r = None"
  then show "(\<Sum>x\<leftarrow>agg_exames_mes_convenio_modalidade (df @ [r]). Receita_Bruta x)
              = (\<Sum>x\<leftarrow>agg_exames_mes_convenio_modalidade df. Receita_Bruta x)"
    by (simp add: exames_total_Bruta agg_sum_append) (simp add: agg_sum_def)
next
  assume "RDF r = None"
  then show "(\<Sum>x\<leftarrow>agg_exames_mes_convenio_modalidade (df @ [r]). Receita_Liquida x)
              = (\<Sum>x\<leftarrow>agg_exames_mes_convenio_modalidade df. Receita_Liquida x)"
    by (simp add: exames_total_Liquida agg_sum_append) (simp add: agg_sum_def)
qed

theorem C3_count_identity_witness:
  "Data_Realizacao (reg (Some ''ANA'') (Some (2024, 1, 15)) (Some ''InsCo'')
       (Some ''ULTRASSOM ABDOME'') (Some 200) (Some 180)) \<noteq> None
   \<and> Data_Realizacao (reg (Some ''BIA'') (Some (2024, 1, 20)) (Some ''InsCo'')
       (Some ''RAIO X TORAX'') None None) \<noteq> None
   \<and> Convenio (reg (Some ''BIA'') (Some (2024, 1, 20)) (Some ''InsCo'')
       (Some ''RAIO X TORAX'') None None) \<noteq> None
   \<and> Nome_Paciente (reg (Some ''BIA'') (Some (2024, 1, 20)) (Some ''InsCo'')
       (Some ''RAIO X TORAX'') None None) \<noteq> None
   \<and> Valor_Exame (reg (Some ''BIA'') (Some (2024, 1, 20)) (Some ''InsCo'')
       (Some ''RAIO X TORAX'') None None) = None
   \<and> (\<Sum>x\<leftarrow>agg_exames_mes_convenio_modalidade
         ([reg (Some ''ANA'') (Some (2024, 1, 15)) (Some ''InsCo'') (Some ''ULTRASSOM ABDOME'')
             (Some 200) (Some 180)]
          @ [reg (Some ''BIA'') (Some (2024, 1, 20)) (Some ''InsCo'') (Some ''RAIO X TORAX'')
             None None]). Qtd x) = 2
   \<and> (\<Sum>x\<leftarrow>agg_exames_mes_convenio_modalidade
         ([reg (Some ''ANA'') (Some (2024, 1, 15)) (Some ''InsCo'') (Some ''ULTRASSOM ABDOME'')
             (Some 200) (Some 180)]
          @ [reg (Some ''BIA'') (Some (2024, 1, 20)) (Some ''InsCo'') (Some ''RAIO X TORAX'')
             None None]). Receita_Bruta x) = 200"
proof -
  let ?a = "reg (Some ''ANA'') (Some (2024, 1, 15)) (Some ''InsCo'') (Some ''ULTRASSOM ABDOME'')
       (Some 200) (Some 180)"
  let ?b = "reg (Some ''BIA'') (Some (2024, 1, 20)) (Some ''InsCo'') (Some ''RAIO X TORAX'')
       None None"
  have pa: "Data_Realizacao ?a \<noteq> None"
    and pb: "Data_Realizacao ?b \<noteq> None" "Convenio ?b \<noteq> None" "Nome_Paciente ?b \<noteq> None"
    and vb: "Valor_Exame ?b = None"
    by (simp_all add: reg_def)
  from pa have "\<forall>r \<in> set [?a]. Data_Realizacao r \<noteq> None"
    by simp
  note inst = C3_count_identity [OF this, of ?b]
  have q: "(\<Sum>x\<leftarrow>agg_exames_mes_convenio_modalidade [?a]. Qtd x) = 1"
    by code_simp
  have b: "(\<Sum>x\<leftarrow>agg_exames_mes_convenio_modalidade [?a]. Receita_Bruta x) = 200"
    by code_simp
  from inst pb have "(\<Sum>x\<leftarrow>agg_exames_mes_convenio_modalidade ([?a] @ [?b]). Qtd x)
      = (\<Sum>x\<leftarrow>agg_exames_mes_convenio_modalidade [?a]. Qtd x) + 1"
    by blast
  moreover from inst vb
  have "(\<Sum>x\<leftarrow>agg_exames_mes_convenio_modalidade ([?a] @ [?b]). Receita_Bruta x)
      = (\<Sum>x\<leftarrow>agg_exames_mes_convenio_modalidade [?a]. Receita_Bruta x)"
    by blast
  ultimately show ?thesis
    using pa pb vb q b by simp
qed

subsection \<open>Records without a parsable date\<close>

lemma in_map_filter:
  "k \<in> set (List.map_filter f xs) \<longleftrightarrow> (\<exists>x \<in> set xs. f x = Some k)"
  by (induction xs) (auto split: option.splits)

lemma nat_month_rows:
  assumes "r \<in> set df" and "Data_Realizacao r = None"
  shows "Some ''NaT'' \<in> set (map r_Mes (agg_resumo_mensal df))"
proof -
  have "Ano_Mes r = Some ''NaT''"
    using assms(2) by (simp add: Ano_Mes_def)
  with assms(1) have "''NaT'' \<in> set (List.map_filter Ano_Mes df)"
    by (auto simp: in_map_filter)
  then have "''NaT'' \<in> set (map fst (groupby Ano_Mes df))"
    by (simp add: groupby_keys)
  then show ?thesis
    by (force simp: resumo_rows)
qed

text \<open>
  C2 (the program at the failing input). One record whose date could not be parsed
  (NaT), with payer UNIMED and exam "MAMOGRAFIA BILATERAL". Its month key is the string
  \<^verbatim>\<open>'NaT'\<close>, which \<^verbatim>\<open>groupby\<close> keeps as a group and \<^verbatim>\<open>notna()\<close> lets through: the record
  appears in all three month-keyed views under the month "NaT" (and, as the claim says,
  in the distributions by payer and by modality).
\<close>

theorem C2_unparsable_date_month_views:
  "agg_exames_mes_convenio_modalidade
     [reg (Some ''ANA'') None (Some ''UNIMED'') (Some ''MAMOGRAFIA BILATERAL'') (Some 100) (Some 90)]
     = [\<lparr>Mes = Some ''NaT'', e_Convenio = ''UNIMED'', e_Modalidade = ''Mamografia'',
          Qtd = 1, Receita_Bruta = 100, Receita_Liquida = 90\<rparr>]
   \<and> agg_resumo_mensal
     [reg (Some ''ANA'') None (Some ''UNIMED'') (Some ''MAMOGRAFIA BILATERAL'') (Some 100) (Some 90)]
     = [\<lparr>r_Mes = Some ''NaT'', Qtd_Exames = 1, r_Receita_Bruta = 100,
          r_Receita_Liquida = 90, Percentual_Lucro = Fin 90\<rparr>]
   \<and> agg_dist_modalidade_mes
     [reg (Some ''ANA'') None (Some ''UNIMED'') (Some ''MAMOGRAFIA BILATERAL'') (Some 100) (Some 90)]
     = [\<lparr>m_Mes = Some ''NaT'', m_Modalidade = ''Mamografia'', m_Qtd = 1\<rparr>]
   \<and> agg_dist_convenio
     [reg (Some ''ANA'') None (Some ''UNIMED'') (Some ''MAMOGRAFIA BILATERAL'') (Some 100) (Some 90)]
     = [\<lparr>grupo = ''UNIMED'', d_Qtd = 1, d_Receita_Bruta = 100, d_Receita_Liquida = 90,
          Percentual = Fin 100\<rparr>]
   \<and> agg_dist_modalidade
     [reg (Some ''ANA'') None (Some ''UNIMED'') (Some ''MAMOGRAFIA BILATERAL'') (Some 100) (Some 90)]
     = [\<lparr>grupo = ''Mamografia'', d_Qtd = 1, d_Receita_Bruta = 100, d_Receita_Liquida = 90,
          Percentual = Fin 100\<rparr>]"
  by code_simp

subsection \<open>The profit percentage of the monthly summary\<close>




subsection \<open>The order of the two distributions\<close>








section \<open>Properties of the page\<close>

subsection \<open>The filters\<close>

lemma aplicarFiltros_eq:
  "aplicarFiltros convenio mes marcadas allData =
     allData\<lparr>exames_mes_convenio_modalidade :=
       filter (\<lambda>x. (convenio = [] \<or> e_Convenio x = convenio)
                  \<and> (mes = [] \<or> Mes x = Some mes)
                  \<and> (marcadas = [] \<or> e_Modalidade x \<in> set marcadas))
         (exames_mes_convenio_modalidade allData)\<rparr>"
  by (auto simp: aplicarFiltros_def Let_def intro: filter_cong)

text \<open>
  C7. For every payload and every filter (a payer or "Todos", a month or "Todos", a list
  of checked modalities), \<open>aplicarFiltros\<close> keeps exactly the rows of the aggregation by
  month, payer and modality that satisfy the conjunction of the selected predicates; an
  unselected control imposes nothing. In particular an empty list of checked modalities
  filters nothing: it gives the same result as checking every modality that occurs.
\<close>

theorem C7_filters:
  "exames_mes_convenio_modalidade (aplicarFiltros convenio mes marcadas allData)
     = filter (\<lambda>x. (convenio = [] \<or> e_Convenio x = convenio)
                  \<and> (mes = [] \<or> Mes x = Some mes)
                  \<and> (marcadas = [] \<or> e_Modalidade x \<in> set marcadas))
         (exames_mes_convenio_modalidade allData)
   \<and> (set (map e_Modalidade (exames_mes_convenio_modalidade allData)) \<subseteq> set todas
      \<longrightarrow> aplicarFiltros convenio mes [] allData = aplicarFiltros convenio mes todas allData)"
proof (intro conjI impI)
  show "exames_mes_convenio_modalidade (aplicarFiltros convenio mes marcadas allData)
     = filter (\<lambda>x. (convenio = [] \<or> e_Convenio x = convenio)
                  \<and> (mes = [] \<or> Mes x = Some mes)
                  \<and> (marcadas = [] \<or> e_Modalidade x \<in> set marcadas))
         (exames_mes_convenio_modalidade allData)"
    by (simp add: aplicarFiltros_eq)
next
  assume sub: "set (map e_Modalidade (exames_mes_convenio_modalidade allData)) \<subseteq> set todas"
  have "filter (\<lambda>x. (convenio = [] \<or> e_Convenio x = convenio)
                  \<and> (mes = [] \<or> Mes x = Some mes)
                  \<and> ([] = ([] :: string list) \<or> e_Modalidade x \<in> set []))
         (exames_mes_convenio_modalidade allData)
      = filter (\<lambda>x. (convenio = [] \<or> e_Convenio x = convenio)
                  \<and> (mes = [] \<or> Mes x = Some mes)
                  \<and> (todas = [] \<or> e_Modalidade x \<in> set todas))
         (exames_mes_convenio_modalidade allData)"
    using sub by (intro filter_cong refl) auto
  then show "aplicarFiltros convenio mes [] allData = aplicarFiltros convenio mes todas allData"
    by (simp only: aplicarFiltros_eq)
qed


theorem C7_filters_witness:
  "set (map e_Modalidade (exames_mes_convenio_modalidade (agregar []
       [reg (Some ''ANA'') (Some (2024, 1, 15)) (Some ''InsCo'') (Some ''ULTRASSOM ABDOME'')
          (Some 200) (Some 180),
        reg (Some ''BIA'') (Some (2024, 2, 20)) (Some ''InsCo'') (Some ''RAIO X TORAX'')
          (Some 100) (Some 90)])))
     \<subseteq> set [''Raio X'', ''Ultrassonografia'']
   \<and> aplicarFiltros ''InsCo'' [] [] (agregar []
       [reg (Some ''ANA'') (Some (2024, 1, 15)) (Some ''InsCo'') (Some ''ULTRASSOM ABDOME'')
          (Some 200) (Some 180),
        reg (Some ''BIA'') (Some (2024, 2, 20)) (Some ''InsCo'') (Some ''RAIO X TORAX'')
          (Some 100) (Some 90)])
     = aplicarFiltros ''InsCo'' [] [''Raio X'', ''Ultrassonografia''] (agregar []
       [reg (Some ''ANA'') (Some (2024, 1, 15)) (Some ''InsCo'') (Some ''ULTRASSOM ABDOME'')
          (Some 200) (Some 180),
        reg (Some ''BIA'') (Some (2024, 2, 20)) (Some ''InsCo'') (Some ''RAIO X TORAX'')
          (Some 100) (Some 90)])
   \<and> map e_Modalidade (exames_mes_convenio_modalidade
       (aplicarFiltros ''InsCo'' ''2024-02'' [''Raio X''] (agregar []
         [reg (Some ''ANA'') (Some (2024, 1, 15)) (Some ''InsCo'') (Some ''ULTRASSOM ABDOME'')
            (Some 200) (Some 180),
          reg (Some ''BIA'') (Some (2024, 2, 20)) (Some ''InsCo'') (Some ''RAIO X TORAX'')
            (Some 100) (Some 90)])))
     = [''Raio X'']"
proof -
  let ?S = "agregar []
       [reg (Some ''ANA'') (Some (2024, 1, 15)) (Some ''InsCo'') (Some ''ULTRASSOM ABDOME'')
          (Some 200) (Some 180),
        reg (Some ''BIA'') (Some (2024, 2, 20)) (Some ''InsCo'') (Some ''RAIO X TORAX'')
          (Some 100) (Some 90)]"
  have rows: "map e_Modalidade (exames_mes_convenio_modalidade ?S) = [''Ultrassonografia'', ''Raio X'']"
    by code_simp
  then have sub: "set (map e_Modalidade (exames_mes_convenio_modalidade ?S))
      \<subseteq> set [''Raio X'', ''Ultrassonografia'']"
    by (simp only: rows) simp
  from C7_filters [of "''InsCo''" "[]" "[]" ?S "[''Raio X'', ''Ultrassonografia'']"] sub
  have eq: "aplicarFiltros ''InsCo'' [] [] ?S
      = aplicarFiltros ''InsCo'' [] [''Raio X'', ''Ultrassonografia''] ?S"
    by blast
  have one: "map e_Modalidade (exames_mes_convenio_modalidade
       (aplicarFiltros ''InsCo'' ''2024-02'' [''Raio X''] ?S)) = [''Raio X'']"
    by code_simp
  from sub eq one show ?thesis
    by blast
qed

subsection \<open>The charts\<close>

lemma primeiros_snoc:
  "primeiros (xs @ [x]) = (if x \<in> set xs then primeiros xs else primeiros xs @ [x])"
  by (simp add: primeiros_def)

lemma set_primeiros: "set (primeiros xs) = set xs"
  by (simp add: primeiros_def)

lemma acumular_map:
  "distinct ks \<Longrightarrow>
   acumular (map (\<lambda>k. (k, f k)) ks) k q =
     (if k \<in> set ks then map (\<lambda>k'. (k', if k' = k then f k' + q else f k')) ks
      else map (\<lambda>k. (k, f k)) ks @ [(k, q)])"
  by (induction ks) auto

lemma distinct_primeiros: "distinct (primeiros xs)"
  by (simp add: primeiros_def)

lemma agrupar_entries:
  "foldl (\<lambda>obj x. acumular obj (key x) (qty x)) [] dados =
     map (\<lambda>k. (k, \<Sum>x\<leftarrow>filter (\<lambda>x. key x = k) dados. qty x)) (primeiros (map key dados))"
proof (induction dados rule: rev_induct)
  case Nil
  then show ?case by (simp add: primeiros_def)
next
  case (snoc x xs)
  let ?P = "primeiros (map key xs)"
  let ?S = "\<lambda>ys k. \<Sum>y\<leftarrow>filter (\<lambda>y. key y = k) ys. qty y"
  have step: "foldl (\<lambda>obj x. acumular obj (key x) (qty x)) [] (xs @ [x])
      = acumular (map (\<lambda>k. (k, ?S xs k)) ?P) (key x) (qty x)"
    by (simp add: snoc.IH)
  have S_snoc: "?S (xs @ [x]) k = ?S xs k + (if k = key x then qty x else 0)" for k
    by auto
  show ?case
  proof (cases "key x \<in> set (map key xs)")
    case True
    then have inn: "key x \<in> set ?P"
      by (simp only: set_primeiros)
    have pe: "primeiros (map key (xs @ [x])) = ?P"
      using True by (simp add: primeiros_snoc del: set_map)
    have a: "acumular (map (\<lambda>k. (k, ?S xs k)) ?P) (key x) (qty x)
        = map (\<lambda>k'. (k', if k' = key x then ?S xs k' + qty x else ?S xs k')) ?P"
      using inn by (simp only: acumular_map [OF distinct_primeiros] if_True)
    have b: "map (\<lambda>k'. (k', if k' = key x then ?S xs k' + qty x else ?S xs k')) ?P
        = map (\<lambda>k. (k, ?S (xs @ [x]) k)) ?P"
      by (rule map_cong [OF refl]) (simp only: S_snoc, simp)
    show ?thesis
      by (simp only: step pe a b)
  next
    case False
    then have out: "key x \<notin> set ?P"
      by (simp only: set_primeiros not_False_eq_True)
    have pe: "primeiros (map key (xs @ [x])) = ?P @ [key x]"
      using False by (simp add: primeiros_snoc del: set_map)
    have zero: "?S xs (key x) = 0"
    proof -
      have "key y \<noteq> key x" if "y \<in> set xs" for y
      proof
        assume "key y = key x"
        with that have "key x \<in> key ` set xs"
          by (metis imageI)
        with False show False
          by simp
      qed
      then have "filter (\<lambda>y. key y = key x) xs = []"
        by (simp add: filter_empty_conv)
      then show ?thesis by simp
    qed
    have a: "acumular (map (\<lambda>k. (k, ?S xs k)) ?P) (key x) (qty x)
        = map (\<lambda>k. (k, ?S xs k)) ?P @ [(key x, qty x)]"
      using out by (simp only: acumular_map [OF distinct_primeiros] if_False)
    have b: "map (\<lambda>k. (k, ?S xs k)) ?P = map (\<lambda>k. (k, ?S (xs @ [x]) k)) ?P"
    proof (rule map_cong [OF refl])
      fix k assume "k \<in> set ?P"
      with out have "k \<noteq> key x" by blast
      then show "(k, ?S xs k) = (k, ?S (xs @ [x]) k)"
        by (simp only: S_snoc, simp)
    qed
    have "?S (xs @ [x]) (key x) = ?S xs (key x) + qty x"
      by (simp only: S_snoc refl if_True)
    then have last: "?S (xs @ [x]) (key x) = qty x"
      by (simp only: zero add_0)
    have c: "[(key x, qty x)] = map (\<lambda>k. (k, ?S (xs @ [x]) k)) [key x]"
      by (simp only: list.map last)
    have "map (\<lambda>k. (k, ?S xs k)) ?P @ [(key x, qty x)]
        = map (\<lambda>k. (k, ?S (xs @ [x]) k)) (?P @ [key x])"
      unfolding map_append b c ..
    then show ?thesis
      by (simp only: step pe a)
  qed
qed

lemma examesPosMes_entries:
  "examesPosMes dados =
     map (\<lambda>m. (m, \<Sum>x\<leftarrow>filter (\<lambda>x. Mes x = m) dados. Qtd x)) (primeiros (map Mes dados))"
  unfolding examesPosMes_def by (rule agrupar_entries)

lemma graficos_distribuicoes:
  "chartConvenio_labels (atualizarGraficos allData fd)
     = map grupo (filter (\<lambda>x. grupo x \<noteq> ''CORTESIA'') (dist_convenio allData))"
  "chartConvenio_data (atualizarGraficos allData fd)
     = map d_Qtd (filter (\<lambda>x. grupo x \<noteq> ''CORTESIA'') (dist_convenio allData))"
  "chartModalidade_labels (atualizarGraficos allData fd)
     = map grupo (filter (\<lambda>x. grupo x \<noteq> ''Outros'') (dist_modalidade allData))"
  "chartModalidade_data (atualizarGraficos allData fd)
     = map d_Qtd (filter (\<lambda>x. grupo x \<noteq> ''Outros'') (dist_modalidade allData))"
  "chartModalidadeQtd_labels (atualizarGraficos allData fd)
     = map grupo (filter (\<lambda>x. grupo x \<noteq> ''Outros'') (dist_modalidade allData))"
  "chartModalidadeQtd_data (atualizarGraficos allData fd)
     = map d_Qtd (filter (\<lambda>x. grupo x \<noteq> ''Outros'') (dist_modalidade allData))"
  by (simp_all add: atualizarGraficos_def Let_def)

lemma graficos_por_mes:
  "chartExamesMes_labels (atualizarGraficos allData fd)
     = map fst (examesPosMes (exames_mes_convenio_modalidade fd))"
  "chartExamesMes_data (atualizarGraficos allData fd)
     = map snd (examesPosMes (exames_mes_convenio_modalidade fd))"
  by (simp_all add: atualizarGraficos_def Let_def)

lemma tela_graficos_eq:
  "tela_graficos (filtrar_e_atualizar allData convenio mes marcadas)
     = atualizarGraficos allData (aplicarFiltros convenio mes marcadas allData)"
  by (simp add: filtrar_e_atualizar_def atualizarDashboard_def)

text \<open>
  C8 (as stated, refuted). A payload of two records, payer UNIMED with an X-ray and payer
  AMIL with a mammography. With the payer filter set to AMIL the table holds the one row
  of AMIL, while the payer chart still shows AMIL and UNIMED and the modality charts
  still show Mamografia and Raio X, each with count 1: these charts are not derived from
  the filtered rows.
\<close>

theorem C8_charts_counterexample:
  "map (\<lambda>x. (e_Convenio x, e_Modalidade x)) (tela_tabela (filtrar_e_atualizar (agregar []
       [reg (Some ''ANA'') (Some (2024, 1, 15)) (Some ''UNIMED'') (Some ''RX TORAX'')
          (Some 100) (Some 90),
        reg (Some ''BIA'') (Some (2024, 1, 20)) (Some ''AMIL'') (Some ''MAMOGRAFIA BILATERAL'')
          (Some 100) (Some 90)]) ''AMIL'' [] []))
     = [(''AMIL'', ''Mamografia'')]
   \<and> chartConvenio_labels (tela_graficos (filtrar_e_atualizar (agregar []
       [reg (Some ''ANA'') (Some (2024, 1, 15)) (Some ''UNIMED'') (Some ''RX TORAX'')
          (Some 100) (Some 90),
        reg (Some ''BIA'') (Some (2024, 1, 20)) (Some ''AMIL'') (Some ''MAMOGRAFIA BILATERAL'')
          (Some 100) (Some 90)]) ''AMIL'' [] []))
     = [''AMIL'', ''UNIMED'']
   \<and> chartConvenio_data (tela_graficos (filtrar_e_atualizar (agregar []
       [reg (Some ''ANA'') (Some (2024, 1, 15)) (Some ''UNIMED'') (Some ''RX TORAX'')
          (Some 100) (Some 90),
        reg (Some ''BIA'') (Some (2024, 1, 20)) (Some ''AMIL'') (Some ''MAMOGRAFIA BILATERAL'')
          (Some 100) (Some 90)]) ''AMIL'' [] []))
     = [1, 1]
   \<and> chartModalidade_labels (tela_graficos (filtrar_e_atualizar (agregar []
       [reg (Some ''ANA'') (Some (2024, 1, 15)) (Some ''UNIMED'') (Some ''RX TORAX'')
          (Some 100) (Some 90),
        reg (Some ''BIA'') (Some (2024, 1, 20)) (Some ''AMIL'') (Some ''MAMOGRAFIA BILATERAL'')
          (Some 100) (Some 90)]) ''AMIL'' [] []))
     = [''Mamografia'', ''Raio X'']
   \<and> chartModalidade_data (tela_graficos (filtrar_e_atualizar (agregar []
       [reg (Some ''ANA'') (Some (2024, 1, 15)) (Some ''UNIMED'') (Some ''RX TORAX'')
          (Some 100) (Some 90),
        reg (Some ''BIA'') (Some (2024, 1, 20)) (Some ''AMIL'') (Some ''MAMOGRAFIA BILATERAL'')
          (Some 100) (Some 90)]) ''AMIL'' [] []))
     = [1, 1]"
  by code_simp

text \<open>
  C8 (amended). For every payload and every active filter, the chart of exams per month
  is derived by grouping the already-filtered rows of the aggregation by month, payer
  and modality: its labels are the months of the filtered rows in the order in which they
  are first seen, and its data are the sums of the counts of the filtered rows of each
  month. The payer chart and the two modality charts are not derived from the filtered
  rows: under every filter they show what they show under no filter.
\<close>

theorem C8_charts:
  "chartExamesMes_labels (tela_graficos (filtrar_e_atualizar allData convenio mes marcadas))
     = primeiros (map Mes
         (exames_mes_convenio_modalidade (aplicarFiltros convenio mes marcadas allData)))
   \<and> chartExamesMes_data (tela_graficos (filtrar_e_atualizar allData convenio mes marcadas))
     = map (\<lambda>m. \<Sum>x\<leftarrow>filter (\<lambda>x. Mes x = m)
                 (exames_mes_convenio_modalidade (aplicarFiltros convenio mes marcadas allData)).
               Qtd x)
         (chartExamesMes_labels (tela_graficos (filtrar_e_atualizar allData convenio mes marcadas)))
   \<and> chartConvenio_labels (tela_graficos (filtrar_e_atualizar allData convenio mes marcadas))
     = chartConvenio_labels (tela_graficos (filtrar_e_atualizar allData [] [] []))
   \<and> chartConvenio_data (tela_graficos (filtrar_e_atualizar allData convenio mes marcadas))
     = chartConvenio_data (tela_graficos (filtrar_e_atualizar allData [] [] []))
   \<and> chartModalidade_labels (tela_graficos (filtrar_e_atualizar allData convenio mes marcadas))
     = chartModalidade_labels (tela_graficos (filtrar_e_atualizar allData [] [] []))
   \<and> chartModalidade_data (tela_graficos (filtrar_e_atualizar allData convenio mes marcadas))
     = chartModalidade_data (tela_graficos (filtrar_e_atualizar allData [] [] []))
   \<and> chartModalidadeQtd_labels (tela_graficos (filtrar_e_atualizar allData convenio mes marcadas))
     = chartModalidadeQtd_labels (tela_graficos (filtrar_e_atualizar allData [] [] []))
   \<and> chartModalidadeQtd_data (tela_graficos (filtrar_e_atualizar allData convenio mes marcadas))
     = chartModalidadeQtd_data (tela_graficos (filtrar_e_atualizar allData [] [] []))"
proof -
  let ?fd = "exames_mes_convenio_modalidade (aplicarFiltros convenio mes marcadas allData)"
  have labels: "map fst (examesPosMes ?fd) = primeiros (map Mes ?fd)"
    by (simp add: examesPosMes_entries comp_def)
  have data: "map snd (examesPosMes ?fd)
      = map (\<lambda>m. \<Sum>x\<leftarrow>filter (\<lambda>x. Mes x = m) ?fd. Qtd x) (primeiros (map Mes ?fd))"
    by (simp add: examesPosMes_entries comp_def)
  show ?thesis
    by (simp only: tela_graficos_eq graficos_distribuicoes graficos_por_mes labels data simp_thms)
qed

subsection \<open>The displays that leave out CORTESIA and Outros\<close>

lemma sum_list_split:
  fixes f :: "'a \<Rightarrow> 'b::comm_monoid_add"
  shows "(\<Sum>x\<leftarrow>xs. f x) = (\<Sum>x\<leftarrow>filter P xs. f x) + (\<Sum>x\<leftarrow>filter (\<lambda>x. \<not> P x) xs. f x)"
  by (induction xs) (simp_all add: ac_simps)

lemma aplicarFiltros_dist:
  "dist_convenio (aplicarFiltros convenio mes marcadas allData) = dist_convenio allData"
  "dist_modalidade (aplicarFiltros convenio mes marcadas allData) = dist_modalidade allData"
  by (simp_all add: aplicarFiltros_eq)

lemma tela_cards_eq:
  "tela_cards (filtrar_e_atualizar allData convenio mes marcadas) = atualizarCards allData"
  by (simp add: filtrar_e_atualizar_def atualizarDashboard_def)

lemma cards_columns:
  "map card_Modalidade (atualizarCards allData)
     = map grupo (filter (\<lambda>x. grupo x \<noteq> ''Outros'') (dist_modalidade allData))"
  "map card_Quantidade (atualizarCards allData)
     = map d_Qtd (filter (\<lambda>x. grupo x \<noteq> ''Outros'') (dist_modalidade allData))"
  "map card_Receita_Bruta (atualizarCards allData)
     = map d_Receita_Bruta (filter (\<lambda>x. grupo x \<noteq> ''Outros'') (dist_modalidade allData))"
  "map card_Receita_Liquida (atualizarCards allData)
     = map d_Receita_Liquida (filter (\<lambda>x. grupo x \<noteq> ''Outros'') (dist_modalidade allData))"
  by (simp_all add: atualizarCards_def comp_def)

lemma not_in_filtered: "k \<notin> set (map grupo (filter (\<lambda>x. grupo x \<noteq> k) rows))"
  by auto

lemma kpiExames_sem_filtro:
  "kpiExames (tela_kpis (filtrar_e_atualizar allData [] [] []))
     = (\<Sum>x\<leftarrow>exames_mes_convenio_modalidade allData. Qtd x)"
  by (simp add: filtrar_e_atualizar_def atualizarDashboard_def aplicarFiltros_vazio kpis_sums)

text \<open>
  C10. For every payload and every active filter: the payer bar chart is the distribution
  by payer of the payload without the payer CORTESIA; the modality doughnut chart, the
  modality bar chart and the modality cards are the distribution by modality of the
  payload without the modality Outros. All four are built from the unfiltered
  distributions of \<open>allData\<close>, so the filter has no part in them; filtering leaves the two
  distributions of the payload as they are, and the KPI count still includes the rows of
  CORTESIA and of Outros.
\<close>

theorem C10_unfiltered_displays:
  "chartConvenio_labels (tela_graficos (filtrar_e_atualizar allData convenio mes marcadas))
     = map grupo (filter (\<lambda>x. grupo x \<noteq> ''CORTESIA'') (dist_convenio allData))
   \<and> chartConvenio_data (tela_graficos (filtrar_e_atualizar allData convenio mes marcadas))
     = map d_Qtd (filter (\<lambda>x. grupo x \<noteq> ''CORTESIA'') (dist_convenio allData))
   \<and> ''CORTESIA'' \<notin> set (chartConvenio_labels
         (tela_graficos (filtrar_e_atualizar allData convenio mes marcadas)))
   \<and> chartModalidade_labels (tela_graficos (filtrar_e_atualizar allData convenio mes marcadas))
     = map grupo (filter (\<lambda>x. grupo x \<noteq> ''Outros'') (dist_modalidade allData))
   \<and> chartModalidade_data (tela_graficos (filtrar_e_atualizar allData convenio mes marcadas))
     = map d_Qtd (filter (\<lambda>x. grupo x \<noteq> ''Outros'') (dist_modalidade allData))
   \<and> ''Outros'' \<notin> set (chartModalidade_labels
         (tela_graficos (filtrar_e_atualizar allData convenio mes marcadas)))
   \<and> chartModalidadeQtd_labels (tela_graficos (filtrar_e_atualizar allData convenio mes marcadas))
     = map grupo (filter (\<lambda>x. grupo x \<noteq> ''Outros'') (dist_modalidade allData))
   \<and> chartModalidadeQtd_data (tela_graficos (filtrar_e_atualizar allData convenio mes marcadas))
     = map d_Qtd (filter (\<lambda>x. grupo x \<noteq> ''Outros'') (dist_modalidade allData))
   \<and> ''Outros'' \<notin> set (chartModalidadeQtd_labels
         (tela_graficos (filtrar_e_atualizar allData convenio mes marcadas)))
   \<and> map card_Modalidade (tela_cards (filtrar_e_atualizar allData convenio mes marcadas))
     = map grupo (filter (\<lambda>x. grupo x \<noteq> ''Outros'') (dist_modalidade allData))
   \<and> map card_Quantidade (tela_cards (filtrar_e_atualizar allData convenio mes marcadas))
     = map d_Qtd (filter (\<lambda>x. grupo x \<noteq> ''Outros'') (dist_modalidade allData))
   \<and> map card_Receita_Bruta (tela_cards (filtrar_e_atualizar allData convenio mes marcadas))
     = map d_Receita_Bruta (filter (\<lambda>x. grupo x \<noteq> ''Outros'') (dist_modalidade allData))
   \<and> map card_Receita_Liquida (tela_cards (filtrar_e_atualizar allData convenio mes marcadas))
     = map d_Receita_Liquida (filter (\<lambda>x. grupo x \<noteq> ''Outros'') (dist_modalidade allData))
   \<and> ''Outros'' \<notin> set (map card_Modalidade
         (tela_cards (filtrar_e_atualizar allData convenio mes marcadas)))
   \<and> dist_convenio (aplicarFiltros convenio mes marcadas allData) = dist_convenio allData
   \<and> dist_modalidade (aplicarFiltros convenio mes marcadas allData) = dist_modalidade allData
   \<and> kpiExames (tela_kpis (filtrar_e_atualizar allData [] [] []))
     = (\<Sum>x\<leftarrow>filter (\<lambda>x. e_Convenio x = ''CORTESIA'')
             (exames_mes_convenio_modalidade allData). Qtd x)
       + (\<Sum>x\<leftarrow>filter (\<lambda>x. e_Convenio x \<noteq> ''CORTESIA'')
             (exames_mes_convenio_modalidade allData). Qtd x)
   \<and> kpiExames (tela_kpis (filtrar_e_atualizar allData [] [] []))
     = (\<Sum>x\<leftarrow>filter (\<lambda>x. e_Modalidade x = ''Outros'')
             (exames_mes_convenio_modalidade allData). Qtd x)
       + (\<Sum>x\<leftarrow>filter (\<lambda>x. e_Modalidade x \<noteq> ''Outros'')
             (exames_mes_convenio_modalidade allData). Qtd x)"
proof -
  have k1: "kpiExames (tela_kpis (filtrar_e_atualizar allData [] [] []))
     = (\<Sum>x\<leftarrow>filter (\<lambda>x. e_Convenio x = ''CORTESIA'')
             (exames_mes_convenio_modalidade allData). Qtd x)
       + (\<Sum>x\<leftarrow>filter (\<lambda>x. e_Convenio x \<noteq> ''CORTESIA'')
             (exames_mes_convenio_modalidade allData). Qtd x)"
    unfolding kpiExames_sem_filtro
    by (rule sum_list_split [of Qtd _ "\<lambda>x. e_Convenio x = ''CORTESIA''"])
  have k2: "kpiExames (tela_kpis (filtrar_e_atualizar allData [] [] []))
     = (\<Sum>x\<leftarrow>filter (\<lambda>x. e_Modalidade x = ''Outros'')
             (exames_mes_convenio_modalidade allData). Qtd x)
       + (\<Sum>x\<leftarrow>filter (\<lambda>x. e_Modalidade x \<noteq> ''Outros'')
             (exames_mes_convenio_modalidade allData). Qtd x)"
    unfolding kpiExames_sem_filtro
    by (rule sum_list_split [of Qtd _ "\<lambda>x. e_Modalidade x = ''Outros''"])
  have n1: "''CORTESIA'' \<notin> set (map grupo (filter (\<lambda>x. grupo x \<noteq> ''CORTESIA'')
      (dist_convenio allData)))"
    by (rule not_in_filtered)
  have n2: "''Outros'' \<notin> set (map grupo (filter (\<lambda>x. grupo x \<noteq> ''Outros'')
      (dist_modalidade allData)))"
    by (rule not_in_filtered)
  show ?thesis
    using k1 k2 n1 n2
    by (simp only: tela_graficos_eq tela_cards_eq graficos_distribuicoes cards_columns
        aplicarFiltros_dist simp_thms)
qed

section \<open>Properties of the normalization\<close>

text \<open>
  Lines 62-77 hold no \<^verbatim>\<open>raise\<close>, and the two parsers are called with
  \<^verbatim>\<open>errors='coerce'\<close>: \<open>carregar\<close> is a total function from sheets to data frames.

  C9. For every sheet and whatever the coercing parsers make of its cells: a row whose
  patient cell equals the header label "Nome do Paciente" is dropped and every other row
  is retained, in the order of the sheet; the retained row keeps its three text cells, and
  each of its six date and numeric fields is what the parser returns for the cell, a
  missing value when the cell cannot be parsed; and a sheet of which nothing remains once
  the header rows are gone yields the empty data frame.
\<close>

theorem C9_normalization:
  "Some ''Nome do Paciente'' \<notin> set (map Nome_Paciente (carregar to_datetime to_numeric planilha))
   \<and> map Nome_Paciente (carregar to_datetime to_numeric planilha)
     = filter (\<lambda>n. n \<noteq> Some ''Nome do Paciente'') (map col_Nome_Paciente planilha)
   \<and> length (carregar to_datetime to_numeric planilha)
     = length (filter (\<lambda>l. col_Nome_Paciente l \<noteq> Some ''Nome do Paciente'') planilha)
   \<and> (l \<in> set planilha \<and> col_Nome_Paciente l \<noteq> Some ''Nome do Paciente''
      \<longrightarrow> coagir to_datetime to_numeric l \<in> set (carregar to_datetime to_numeric planilha))
   \<and> Nome_Paciente (coagir to_datetime to_numeric l) = col_Nome_Paciente l
   \<and> Convenio (coagir to_datetime to_numeric l) = col_Convenio l
   \<and> Exame_Realizado (coagir to_datetime to_numeric l) = col_Exame_Realizado l
   \<and> (to_datetime (col_Data_Realizacao l) = None
      \<longrightarrow> Data_Realizacao (coagir to_datetime to_numeric l) = None)
   \<and> (to_numeric (col_Valor_Exame l) = None
      \<longrightarrow> Valor_Exame (coagir to_datetime to_numeric l) = None)
   \<and> (to_numeric (col_Taxa_Cartao l) = None
      \<longrightarrow> Taxa_Cartao (coagir to_datetime to_numeric l) = None)
   \<and> (to_numeric (col_Percentual_SASE l) = None
      \<longrightarrow> Percentual_SASE (coagir to_datetime to_numeric l) = None)
   \<and> (to_numeric (col_Percentual_Medico l) = None
      \<longrightarrow> Percentual_Medico (coagir to_datetime to_numeric l) = None)
   \<and> (to_numeric (col_RDF l) = None
      \<longrightarrow> RDF (coagir to_datetime to_numeric l) = None)
   \<and> (list_all (\<lambda>l. col_Nome_Paciente l = Some ''Nome do Paciente'') planilha
      \<longrightarrow> carregar to_datetime to_numeric planilha = [])"
proof -
  have names: "map Nome_Paciente (carregar to_datetime to_numeric planilha)
      = filter (\<lambda>n. n \<noteq> Some ''Nome do Paciente'') (map col_Nome_Paciente planilha)"
    by (simp add: carregar_def coagir_def comp_def filter_map)
  have dropped: "Some ''Nome do Paciente''
      \<notin> set (map Nome_Paciente (carregar to_datetime to_numeric planilha))"
    unfolding names by simp
  have len: "length (carregar to_datetime to_numeric planilha)
      = length (filter (\<lambda>l. col_Nome_Paciente l \<noteq> Some ''Nome do Paciente'') planilha)"
    by (simp add: carregar_def)
  have kept: "coagir to_datetime to_numeric l \<in> set (carregar to_datetime to_numeric planilha)"
    if "l \<in> set planilha \<and> col_Nome_Paciente l \<noteq> Some ''Nome do Paciente''"
    using that by (simp add: carregar_def)
  have empty: "carregar to_datetime to_numeric planilha = []"
    if "list_all (\<lambda>l. col_Nome_Paciente l = Some ''Nome do Paciente'') planilha"
    using that by (simp add: carregar_def list_all_iff filter_empty_conv)
  show ?thesis
    using names dropped len kept empty by (simp add: coagir_def)
qed

theorem C9_normalization_witness:
  "carregar exemplo_to_datetime exemplo_to_numeric
     [lin (Some ''ANA'') ''2024-01-15'' (Some ''UNIMED'') (Some ''RX TORAX'') ''100'' ''90'',
      lin (Some ''Nome do Paciente'') ''Data'' (Some ''Convenio'') (Some ''Exame'') ''Valor'' ''RDF'',
      lin (Some ''BIA'') ''sem data'' (Some ''AMIL'') (Some ''MAMOGRAFIA'') ''a combinar'' ''90'']
     = [reg (Some ''ANA'') (Some (2024, 1, 15)) (Some ''UNIMED'') (Some ''RX TORAX'')
          (Some 100) (Some 90),
        reg (Some ''BIA'') None (Some ''AMIL'') (Some ''MAMOGRAFIA'') None (Some 90)]
   \<and> coagir exemplo_to_datetime exemplo_to_numeric
       (lin (Some ''BIA'') ''sem data'' (Some ''AMIL'') (Some ''MAMOGRAFIA'') ''a combinar'' ''90'')
     \<in> set (carregar exemplo_to_datetime exemplo_to_numeric
       [lin (Some ''ANA'') ''2024-01-15'' (Some ''UNIMED'') (Some ''RX TORAX'') ''100'' ''90'',
        lin (Some ''Nome do Paciente'') ''Data'' (Some ''Convenio'') (Some ''Exame'') ''Valor'' ''RDF'',
        lin (Some ''BIA'') ''sem data'' (Some ''AMIL'') (Some ''MAMOGRAFIA'') ''a combinar'' ''90''])
   \<and> exemplo_to_datetime ''sem data'' = None
   \<and> Data_Realizacao (coagir exemplo_to_datetime exemplo_to_numeric
       (lin (Some ''BIA'') ''sem data'' (Some ''AMIL'') (Some ''MAMOGRAFIA'') ''a combinar'' ''90''))
     = None
   \<and> exemplo_to_numeric ''a combinar'' = None
   \<and> Valor_Exame (coagir exemplo_to_datetime exemplo_to_numeric
       (lin (Some ''BIA'') ''sem data'' (Some ''AMIL'') (Some ''MAMOGRAFIA'') ''a combinar'' ''90''))
     = None
   \<and> carregar exemplo_to_datetime exemplo_to_numeric
       [lin (Some ''Nome do Paciente'') ''Data'' (Some ''Convenio'') (Some ''Exame'') ''Valor'' ''RDF'']
     = []"
proof -
  let ?a = "lin (Some ''ANA'') ''2024-01-15'' (Some ''UNIMED'') (Some ''RX TORAX'') ''100'' ''90''"
  let ?h = "lin (Some ''Nome do Paciente'') ''Data'' (Some ''Convenio'') (Some ''Exame'')
      ''Valor'' ''RDF''"
  let ?b = "lin (Some ''BIA'') ''sem data'' (Some ''AMIL'') (Some ''MAMOGRAFIA'') ''a combinar'' ''90''"
  have rows: "carregar exemplo_to_datetime exemplo_to_numeric [?a, ?h, ?b]
      = [reg (Some ''ANA'') (Some (2024, 1, 15)) (Some ''UNIMED'') (Some ''RX TORAX'')
           (Some 100) (Some 90),
         reg (Some ''BIA'') None (Some ''AMIL'') (Some ''MAMOGRAFIA'') None (Some 90)]"
    by code_simp
  have b_in: "?b \<in> set [?a, ?h, ?b] \<and> col_Nome_Paciente ?b \<noteq> Some ''Nome do Paciente''"
    by (simp add: lin_def)
  have nd: "exemplo_to_datetime (col_Data_Realizacao ?b) = None"
    and nv: "exemplo_to_numeric (col_Valor_Exame ?b) = None"
    by (simp_all add: lin_def exemplo_to_datetime_def exemplo_to_numeric_def)
  have hd_only: "list_all (\<lambda>l. col_Nome_Paciente l = Some ''Nome do Paciente'') [?h]"
    by (simp add: lin_def)
  note main = C9_normalization [of exemplo_to_datetime exemplo_to_numeric "[?a, ?h, ?b]" ?b]
  note only = C9_normalization [of exemplo_to_datetime exemplo_to_numeric "[?h]" ?h]
  from main b_in have kept: "coagir exemplo_to_datetime exemplo_to_numeric ?b
      \<in> set (carregar exemplo_to_datetime exemplo_to_numeric [?a, ?h, ?b])"
    by blast
  from main nd have d: "Data_Realizacao (coagir exemplo_to_datetime exemplo_to_numeric ?b) = None"
    by blast
  from main nv have v: "Valor_Exame (coagir exemplo_to_datetime exemplo_to_numeric ?b) = None"
    by blast
  from only hd_only have e: "carregar exemplo_to_datetime exemplo_to_numeric [?h] = []"
    by blast
  have nd': "exemplo_to_datetime ''sem data'' = None"
    and nv': "exemplo_to_numeric ''a combinar'' = None"
    by (simp_all add: exemplo_to_datetime_def exemplo_to_numeric_def)
  from rows kept d v e nd' nv' show ?thesis
    by blast
qed

end
